theory Spec2Isabelle
  imports Complex_Main
begin

section \<open>Python values, errors and dictionaries\<close>

text \<open>
  The chat application of \<^verbatim>\<open>bedrock_chatbot.py\<close> is dynamically typed: message contents,
  inference parameters and configuration records are Python strings, numbers, lists and
  dictionaries. They are embedded as one datatype of values; a dictionary is an association
  list in insertion order. Every exception the code can raise is a value of \<open>py_error\<close>.
\<close>

datatype py_error =
    IndexError | KeyError | TypeError | AttributeError | ValueError | ValidationError
  | UnboundLocalError | UnidentifiedImageError | BackendError

datatype pyval =
    PNone | PBool bool | PInt int | PFloat real | PStr string
  | PList "pyval list" | PDict "(string \<times> pyval) list"

text \<open>Truth value of an object, as \<^verbatim>\<open>if x:\<close> and \<^verbatim>\<open>not x\<close> read it.\<close>

fun truthy :: "pyval \<Rightarrow> bool" where
  "truthy PNone = False"
| "truthy (PBool b) = b"
| "truthy (PInt n) = (n \<noteq> 0)"
| "truthy (PFloat x) = (x \<noteq> 0)"
| "truthy (PStr s) = (s \<noteq> [])"
| "truthy (PList xs) = (xs \<noteq> [])"
| "truthy (PDict d) = (d \<noteq> [])"

text \<open>\<^verbatim>\<open>d.get(k, default)\<close>, \<^verbatim>\<open>d[k] = v\<close> and \<^verbatim>\<open>k in d\<close> on a dictionary.\<close>

definition dict_get :: "(string \<times> pyval) list \<Rightarrow> string \<Rightarrow> pyval \<Rightarrow> pyval" where
  "dict_get d k dflt = (case map_of d k of None \<Rightarrow> dflt | Some v \<Rightarrow> v)"

fun dict_set :: "(string \<times> pyval) list \<Rightarrow> string \<Rightarrow> pyval \<Rightarrow> (string \<times> pyval) list" where
  "dict_set [] k v = [(k, v)]"
| "dict_set ((k', v') # d) k v = (if k' = k then (k, v) # d else (k', v') # dict_set d k v)"

definition has_key :: "(string \<times> pyval) list \<Rightarrow> string \<Rightarrow> bool" where
  "has_key d k = (map_of d k \<noteq> None)"

text \<open>Substring test, \<^verbatim>\<open>p in s\<close> on two strings.\<close>

fun starts_with :: "string \<Rightarrow> string \<Rightarrow> bool" where
  "starts_with [] s = True"
| "starts_with (c # p) [] = False"
| "starts_with (c # p) (d # s) = (c = d \<and> starts_with p s)"

fun str_contains :: "string \<Rightarrow> string \<Rightarrow> bool" where
  "str_contains p [] = (p = [])"
| "str_contains p (c # s) = (starts_with p (c # s) \<or> str_contains p s)"

text \<open>
  The membership test \<^verbatim>\<open>k in x\<close> for a string \<open>k\<close>: key membership on a dictionary,
  substring on a string, element membership on a list, TypeError on anything else.
\<close>

fun py_in :: "string \<Rightarrow> pyval \<Rightarrow> py_error + bool" where
  "py_in k (PDict d) = Inr (has_key d k)"
| "py_in k (PStr s) = Inr (str_contains k s)"
| "py_in k (PList xs) = Inr (PStr k \<in> set xs)"
| "py_in k x = Inl TypeError"

text \<open>Subscripting \<^verbatim>\<open>x[0]\<close> and \<^verbatim>\<open>x[k]\<close> with a string key.\<close>

fun py_first :: "pyval \<Rightarrow> py_error + pyval" where
  "py_first (PList []) = Inl IndexError"
| "py_first (PList (x # xs)) = Inr x"
| "py_first (PStr []) = Inl IndexError"
| "py_first (PStr (c # s)) = Inr (PStr [c])"
| "py_first (PDict d) = Inl KeyError"
| "py_first x = Inl TypeError"

fun py_item :: "pyval \<Rightarrow> string \<Rightarrow> py_error + pyval" where
  "py_item (PDict d) k = (case map_of d k of None \<Rightarrow> Inl KeyError | Some v \<Rightarrow> Inr v)"
| "py_item x k = Inl TypeError"

text \<open>Sequencing of fallible steps: the first exception ends the computation.\<close>

definition and_then :: "py_error + 'a \<Rightarrow> ('a \<Rightarrow> py_error + 'b) \<Rightarrow> py_error + 'b" where
  "and_then r f = (case r of Inl e \<Rightarrow> Inl e | Inr x \<Rightarrow> f x)"

section \<open>Session state\<close>

text \<open>
  A chat message of the visible log is a dictionary with the keys \<^verbatim>\<open>role\<close>,
  \<^verbatim>\<open>content\<close> and, on user messages built with attachments, \<^verbatim>\<open>images\<close>.
\<close>

record message =
  role :: string
  content :: pyval
  images :: "string list option"

definition INIT_MESSAGE :: message where
  "INIT_MESSAGE =
     \<lparr>role = ''assistant'',
      content = PStr ''Hi! I'm your AI Bot on Bedrock. How may I help you?'',
      images = None\<rparr>"

text \<open>
  The entries of the memory-backed log are the memory library's message objects; the code
  tells them apart by their \<^verbatim>\<open>type\<close>, \<^verbatim>\<open>ai\<close> or \<^verbatim>\<open>human\<close>.
\<close>

datatype lc_message = AIMessage pyval | HumanMessage pyval

fun lc_content :: "lc_message \<Rightarrow> pyval" where
  "lc_content (AIMessage c) = c"
| "lc_content (HumanMessage c) = c"

fun lc_type :: "lc_message \<Rightarrow> string" where
  "lc_type (AIMessage c) = ''ai''"
| "lc_type (HumanMessage c) = ''human''"

text \<open>
  \<^verbatim>\<open>st.session_state\<close>: each key is absent (\<open>None\<close>) until the code first assigns it.
\<close>

record session =
  widget_key :: "string option"
  model_name :: "string option"
  messages :: "message list option"
  langchain_messages :: "lc_message list option"
  file_uploader_key :: "int option"

definition empty_session :: session where
  "empty_session =
     \<lparr>widget_key = None, model_name = None, messages = None,
      langchain_messages = None, file_uploader_key = None\<rparr>"

text \<open>
  \<^verbatim>\<open>new_chat\<close>, the callback of the "New Chat" button. The argument \<open>r\<close> is the value
  that \<^verbatim>\<open>random.randint(1, 100)\<close> returns, an integer between 1 and 100 inclusive.
\<close>

definition new_chat :: "int \<Rightarrow> session \<Rightarrow> session" where
  "new_chat r s =
     s\<lparr>messages := Some [INIT_MESSAGE],
       langchain_messages := Some [],
       file_uploader_key := Some r\<rparr>"

section \<open>Inference parameters\<close>

text \<open>
  The configuration store \<^verbatim>\<open>config["models"]\<close> is not part of the source file; it is a
  parameter, a dictionary from model name to configuration record. The values the sidebar
  widgets return in a render are inputs of that render.
\<close>

type_synonym model_config = "(string \<times> pyval) list"

record widgets =
  model_select :: string
  system_prompt_w :: string
  temperature_w :: real
  top_p_w :: real
  top_k_w :: int
  max_tokens_w :: int
  memory_window_w :: int

definition system_prompt_disabled :: "model_config \<Rightarrow> bool" where
  "system_prompt_disabled mc = truthy (dict_get mc ''system_prompt_disabled'' (PBool False))"

text \<open>
  \<^verbatim>\<open>render_sidebar\<close> stores the selected model name in the session, reads the model's
  configuration record (KeyError when the store has none for that name) and returns the
  \<^verbatim>\<open>model_kwargs\<close> dictionary with the memory window.
\<close>

definition render_sidebar ::
  "(string \<times> model_config) list \<Rightarrow> widgets \<Rightarrow> session
     \<Rightarrow> session \<times> (py_error + (string \<times> pyval) list \<times> int)" where
  "render_sidebar cfg w s =
     (let s' = s\<lparr>model_name := Some (model_select w)\<rparr> in
      case map_of cfg (model_select w) of
        None \<Rightarrow> (s', Inl KeyError)
      | Some mc \<Rightarrow>
          (let model_kwargs =
                 [(''temperature'', PFloat (temperature_w w)),
                  (''top_p'', PFloat (top_p_w w)),
                  (''top_k'', PInt (top_k_w w)),
                  (''max_tokens'', PInt (max_tokens_w w))];
               model_kwargs' =
                 (if \<not> system_prompt_disabled mc
                  then dict_set model_kwargs ''system'' (PStr (system_prompt_w w))
                  else model_kwargs)
           in (s', Inr (model_kwargs', memory_window_w w))))"

section \<open>Attachments\<close>

text \<open>
  An uploaded file carries its identifier; \<^verbatim>\<open>Image.open\<close> either decodes it or raises.
  A decoded image has the format the decoder detected (\<^verbatim>\<open>img.format\<close>, for instance
  \<^verbatim>\<open>JPEG\<close> or \<^verbatim>\<open>PNG\<close>; the upload widget accepts jpg, jpeg and png files), and
  \<open>img_b64\<close> stands for the base64 text of the bytes that \<^verbatim>\<open>img.save\<close> writes in that
  same format.
\<close>

record image =
  img_format :: string
  img_b64 :: string

record uploaded_file =
  file_id :: string
  opened :: "image option"

definition Image_open :: "uploaded_file \<Rightarrow> py_error + image" where
  "Image_open f = (case opened f of None \<Rightarrow> Inl UnidentifiedImageError | Some img \<Rightarrow> Inr img)"

text \<open>The content block that \<^verbatim>\<open>display_uploaded_images\<close> builds for one image.\<close>

definition image_block :: "image \<Rightarrow> pyval" where
  "image_block img =
     PDict [(''type'', PStr ''image''),
            (''source'', PDict [(''type'', PStr ''base64''),
                                (''media_type'', PStr ''image/jpeg''),
                                (''data'', PStr (img_b64 img))])]"

definition num_cols :: nat where
  "num_cols = 10"

text \<open>
  The loop of \<^verbatim>\<open>display_uploaded_images\<close> over the uploaded files. Its state is the
  column counter \<open>i\<close>, the blocks \<open>content_images\<close>, the caller's list
  \<open>uploaded_file_ids\<close> that the function extends in place, and the thumbnails drawn
  so far (column and file identifier).
\<close>

fun display_uploaded_images_loop ::
  "uploaded_file list \<Rightarrow> string list \<Rightarrow> nat \<Rightarrow> pyval list \<Rightarrow> string list \<Rightarrow> (nat \<times> string) list
     \<Rightarrow> py_error + pyval list \<times> string list \<times> (nat \<times> string) list" where
  "display_uploaded_images_loop [] mil i content_images ids thumbs =
     Inr (content_images, ids, thumbs)"
| "display_uploaded_images_loop (f # fs) mil i content_images ids thumbs =
     (if file_id f \<notin> set mil then
        (case Image_open f of
           Inl e \<Rightarrow> Inl e
         | Inr img \<Rightarrow>
             display_uploaded_images_loop fs mil
               (if Suc i \<ge> num_cols then 0 else Suc i)
               (content_images @ [image_block img])
               (ids @ [file_id f])
               (thumbs @ [(i, file_id f)]))
      else display_uploaded_images_loop fs mil i content_images ids thumbs)"

definition display_uploaded_images ::
  "uploaded_file list \<Rightarrow> string list \<Rightarrow> string list
     \<Rightarrow> py_error + pyval list \<times> string list \<times> (nat \<times> string) list" where
  "display_uploaded_images ufs message_images_list uploaded_file_ids =
     display_uploaded_images_loop ufs message_images_list 0 [] uploaded_file_ids []"

text \<open>
  \<^verbatim>\<open>display_images\<close> draws, for each identifier of a message, every uploaded file with
  that identifier; it raises when such a file does not decode.
\<close>

fun display_images_inner ::
  "string \<Rightarrow> uploaded_file list \<Rightarrow> nat \<Rightarrow> (nat \<times> string) list
     \<Rightarrow> py_error + nat \<times> (nat \<times> string) list" where
  "display_images_inner image_id [] i thumbs = Inr (i, thumbs)"
| "display_images_inner image_id (f # fs) i thumbs =
     (if image_id = file_id f then
        (case Image_open f of
           Inl e \<Rightarrow> Inl e
         | Inr img \<Rightarrow>
             display_images_inner image_id fs
               (if Suc i \<ge> num_cols then 0 else Suc i) (thumbs @ [(i, file_id f)]))
      else display_images_inner image_id fs i thumbs)"

fun display_images_loop ::
  "string list \<Rightarrow> uploaded_file list \<Rightarrow> nat \<Rightarrow> (nat \<times> string) list
     \<Rightarrow> py_error + (nat \<times> string) list" where
  "display_images_loop [] ufs i thumbs = Inr thumbs"
| "display_images_loop (image_id # image_ids) ufs i thumbs =
     (case display_images_inner image_id ufs i thumbs of
        Inl e \<Rightarrow> Inl e
      | Inr (i', thumbs') \<Rightarrow> display_images_loop image_ids ufs i' thumbs')"

definition display_images :: "string list \<Rightarrow> uploaded_file list \<Rightarrow> py_error + (nat \<times> string) list" where
  "display_images image_ids ufs = display_images_loop image_ids ufs 0 []"

section \<open>Displaying the message log\<close>

text \<open>
  The two display functions inspect the shape of a message content at run time. The result
  is the value handed to \<^verbatim>\<open>st.markdown\<close> (\<open>None\<close> when nothing is drawn), or the
  exception of a subscript that does not apply.
\<close>

definition display_user_message :: "pyval \<Rightarrow> py_error + pyval option" where
  "display_user_message message_content =
     (case message_content of
        PStr s \<Rightarrow> Inr (Some (PStr s))
      | PDict d \<Rightarrow>
          and_then (py_item (PDict d) ''input'') (\<lambda>a.
          and_then (py_first a) (\<lambda>b.
          and_then (py_item b ''content'') (\<lambda>c.
          and_then (py_first c) (\<lambda>d'.
          and_then (py_item d' ''text'') (\<lambda>t. Inr (Some t))))))
      | other \<Rightarrow>
          and_then (py_first other) (\<lambda>b.
          and_then (py_item b ''text'') (\<lambda>t. Inr (Some t))))"

definition display_assistant_message :: "pyval \<Rightarrow> py_error + pyval option" where
  "display_assistant_message message_content =
     (case message_content of
        PStr s \<Rightarrow> Inr (Some (PStr s))
      | other \<Rightarrow>
          and_then (py_in ''response'' other) (\<lambda>found.
            if found then and_then (py_item other ''response'') (\<lambda>t. Inr (Some t))
            else Inr None))"

definition has_images :: "message \<Rightarrow> bool" where
  "has_images m = (case images m of None \<Rightarrow> False | Some ids \<Rightarrow> ids \<noteq> [])"

definition images_of :: "message \<Rightarrow> string list" where
  "images_of m = (case images m of None \<Rightarrow> [] | Some ids \<Rightarrow> ids)"

definition display_one_message :: "uploaded_file list \<Rightarrow> message \<Rightarrow> py_error + unit" where
  "display_one_message ufs m =
     and_then (if ufs \<noteq> [] \<and> has_images m then display_images (images_of m) ufs else Inr [])
       (\<lambda>thumbs.
     and_then (if role m = ''user'' then display_user_message (content m) else Inr None)
       (\<lambda>u.
     and_then (if role m = ''assistant'' then display_assistant_message (content m) else Inr None)
       (\<lambda>a. Inr ())))"

fun display_chat_messages :: "uploaded_file list \<Rightarrow> message list \<Rightarrow> py_error + unit" where
  "display_chat_messages ufs [] = Inr ()"
| "display_chat_messages ufs (m # ms) =
     and_then (display_one_message ufs m) (\<lambda>u. display_chat_messages ufs ms)"

section \<open>Memory bridge\<close>

text \<open>
  The message classes of the memory library validate their content when an object is
  built: a content is a string, or a list whose elements are strings or dictionaries.
\<close>

fun is_block :: "pyval \<Rightarrow> bool" where
  "is_block (PStr s) = True"
| "is_block (PDict d) = True"
| "is_block x = False"

fun valid_content :: "pyval \<Rightarrow> bool" where
  "valid_content (PStr s) = True"
| "valid_content (PList xs) = list_all is_block xs"
| "valid_content x = False"

definition new_message :: "(pyval \<Rightarrow> lc_message) \<Rightarrow> pyval \<Rightarrow> py_error + lc_message" where
  "new_message cls c = (if valid_content c then Inr (cls c) else Inl ValidationError)"

text \<open>
  The body of the loop of \<^verbatim>\<open>langchain_messages_format\<close> for one entry: the value that
  is stored back at the entry's index, or the exception raised there.
\<close>

definition wrapped_content :: "lc_message \<Rightarrow> py_error + pyval" where
  "wrapped_content m = and_then (py_first (lc_content m)) (\<lambda>x. py_item x ''content'')"

definition format_entry :: "lc_message \<Rightarrow> py_error + lc_message" where
  "format_entry m =
     (case lc_content m of
        PList xs \<Rightarrow>
          and_then (py_first (PList xs)) (\<lambda>x.
          and_then (py_in ''role'' x) (\<lambda>tagged.
            if tagged then
              and_then (if lc_type m = ''ai''
                        then and_then (wrapped_content m) (new_message AIMessage)
                        else Inr m) (\<lambda>m1.
              if lc_type m1 = ''human''
              then and_then (wrapped_content m1) (new_message HumanMessage)
              else Inr m1)
            else Inr m))
      | other \<Rightarrow> Inr m)"

text \<open>
  The list is rewritten in place, entry by entry: when an entry raises, the entries before
  it stay rewritten and the rest stays as it was.
\<close>

fun langchain_messages_format :: "lc_message list \<Rightarrow> lc_message list \<times> py_error option" where
  "langchain_messages_format [] = ([], None)"
| "langchain_messages_format (m # ms) =
     (case format_entry m of
        Inl e \<Rightarrow> (m # ms, Some e)
      | Inr m' \<Rightarrow>
          (case langchain_messages_format ms of (ms', r) \<Rightarrow> (m' # ms', r)))"

text \<open>
  Two shapes of entries. A settled entry is one the loop body leaves as it is: its content
  is not a list, or it is a list that starts with a block without a role marker. A wrapped
  entry is a list that starts with a role-tagged dictionary whose \<^verbatim>\<open>content\<close> is itself
  a valid, settled content; this is the shape in which the chain saves a turn that was
  given as a list of role-tagged dictionaries.
\<close>

fun settled_content :: "pyval \<Rightarrow> bool" where
  "settled_content (PList []) = False"
| "settled_content (PList (x # xs)) = (py_in ''role'' x = Inr False)"
| "settled_content other = True"

definition settled :: "lc_message \<Rightarrow> bool" where
  "settled m = settled_content (lc_content m)"

definition wrapped :: "lc_message \<Rightarrow> bool" where
  "wrapped m =
     (case lc_content m of
        PList (x # xs) \<Rightarrow>
          py_in ''role'' x = Inr True \<and>
          (case py_item x ''content'' of
             Inl e \<Rightarrow> False
           | Inr c \<Rightarrow> valid_content c \<and> settled_content c)
      | other \<Rightarrow> False)"

section \<open>Streaming and the conversation chain\<close>

text \<open>
  \<^verbatim>\<open>StreamHandler\<close>: \<open>h_text\<close> is the attribute \<^verbatim>\<open>text\<close>, and \<open>h_container\<close> lists
  what \<^verbatim>\<open>container.markdown\<close> was called with, oldest first.
\<close>

record stream_handler =
  h_text :: string
  h_container :: "string list"

definition StreamHandler :: stream_handler where
  "StreamHandler = \<lparr>h_text = [], h_container = []\<rparr>"

definition on_llm_new_token :: "stream_handler \<Rightarrow> string \<Rightarrow> stream_handler" where
  "on_llm_new_token h token =
     h\<lparr>h_text := h_text h @ token, h_container := h_container h @ [h_text h @ token]\<rparr>"

text \<open>
  \<^verbatim>\<open>ChatModel(model_name, model_kwargs)\<close> is defined in \<^verbatim>\<open>models.py\<close>, which is not
  among the sources; an object of the class is represented by the two arguments it was
  built from.
\<close>

record chat_model =
  cm_model_name :: string
  cm_model_kwargs :: "(string \<times> pyval) list"

text \<open>
  Modelled from the spec: the collaborators that the source calls and does not define
  (section 6, External Interfaces). \<open>format_prompt\<close> is the Model Adapter's
  \<^verbatim>\<open>formatPrompt(text)\<close>; \<open>llm\<close> is its streaming \<^verbatim>\<open>invoke\<close>, which for a model object
  and a conversation context yields the streamed tokens and then the final text or a
  failure; \<open>window\<close> is the Conversation Memory's \<^verbatim>\<open>window(k)\<close>; \<open>input_messages\<close> is
  the library's reading of a list of role-tagged dictionaries as message objects.
\<close>

record backend =
  format_prompt :: "chat_model \<Rightarrow> string \<Rightarrow> py_error + pyval"
  llm :: "chat_model \<Rightarrow> lc_message list \<Rightarrow> string list \<times> (py_error + string)"
  window :: "int \<Rightarrow> lc_message list \<Rightarrow> lc_message list"
  input_messages :: "pyval \<Rightarrow> py_error + lc_message list"

text \<open>
  \<^verbatim>\<open>CLAUDE_PROMPT\<close> is a template of two message placeholders, in this order.
\<close>

definition CLAUDE_PROMPT :: "string list" where
  "CLAUDE_PROMPT = [''history'', ''input'']"

record conversation_chain =
  chain_llm :: chat_model
  chain_k :: int
  chain_prompt :: "string list"

text \<open>
  \<^verbatim>\<open>init_conversationchain\<close> builds the chain over the model's \<^verbatim>\<open>llm\<close>, a window memory
  of size \<^verbatim>\<open>memory_window\<close> and the template. The memory's message history lives in the
  session under \<^verbatim>\<open>langchain_messages\<close>; its constructor creates the empty log when the
  key is absent. The visible log is created with the greeting when it is absent.
\<close>

definition init_conversationchain ::
  "chat_model \<Rightarrow> int \<Rightarrow> session \<Rightarrow> conversation_chain \<times> session" where
  "init_conversationchain cm memory_window s =
     (let s1 = (if langchain_messages s = None then s\<lparr>langchain_messages := Some []\<rparr> else s);
          conversation = \<lparr>chain_llm = cm, chain_k = memory_window, chain_prompt = CLAUDE_PROMPT\<rparr>;
          s2 = (if messages s1 = None then s1\<lparr>messages := Some [INIT_MESSAGE]\<rparr> else s1)
      in (conversation, s2))"

text \<open>
  Modelled from the spec: \<^verbatim>\<open>conversation.invoke\<close> of the conversation-chain library,
  which is not among the sources. It binds \<^verbatim>\<open>history\<close> to the memory window and
  \<^verbatim>\<open>input\<close> to the given input, fills the template, calls the model with the resulting
  context and hands every streamed token to the callback handler. When the model fails the
  exception propagates. Otherwise the exchange is saved to the memory log, the input as it
  was given and the final text, and the result is a dictionary that holds the input and the
  response.
\<close>

record invocation =
  inv_handler :: stream_handler
  inv_calls :: "(chat_model \<times> lc_message list) list"
  inv_result :: "py_error + pyval \<times> lc_message list"

definition fill_template :: "string list \<Rightarrow> (string \<times> lc_message list) list \<Rightarrow> lc_message list" where
  "fill_template placeholders vars =
     concat (map (\<lambda>v. case map_of vars v of None \<Rightarrow> [] | Some ms \<Rightarrow> ms) placeholders)"

definition chain_invoke ::
  "backend \<Rightarrow> conversation_chain \<Rightarrow> pyval \<Rightarrow> lc_message list \<Rightarrow> stream_handler \<Rightarrow> invocation" where
  "chain_invoke be conversation inp memory h =
     (case input_messages be inp of
        Inl e \<Rightarrow> \<lparr>inv_handler = h, inv_calls = [], inv_result = Inl e\<rparr>
      | Inr turn \<Rightarrow>
          (let history = window be (chain_k conversation) memory;
               context = fill_template (chain_prompt conversation)
                           [(''history'', history), (''input'', turn)];
               streamed = llm be (chain_llm conversation) context;
               h' = foldl on_llm_new_token h (fst streamed)
           in \<lparr>inv_handler = h',
               inv_calls = [(chain_llm conversation, context)],
               inv_result =
                 (case snd streamed of
                    Inl e \<Rightarrow> Inl e
                  | Inr final_text \<Rightarrow>
                      Inr (PDict [(''input'', inp), (''response'', PStr final_text)],
                           memory @ [HumanMessage inp, AIMessage (PStr final_text)]))\<rparr>))"

definition generate_response ::
  "backend \<Rightarrow> conversation_chain \<Rightarrow> pyval \<Rightarrow> lc_message list \<Rightarrow> invocation" where
  "generate_response be conversation inp memory =
     chain_invoke be conversation inp memory StreamHandler"

section \<open>One render of the page\<close>

text \<open>
  Every interaction reruns \<^verbatim>\<open>main\<close> from the top on the session state that the last
  run left. The inputs of a run are the values its widgets return: the sidebar controls,
  the files in the upload widget, the text of the chat input (\<open>None\<close> when nothing was
  submitted), and \<open>widget_key_draw\<close>, the string of the random number drawn for the
  widget key. Session state is mutated in place, so a run that raises keeps the
  assignments made before the exception.
\<close>

record render_input =
  widget_key_draw :: string
  sidebar :: widgets
  uploaded_files :: "uploaded_file list"
  prompt :: "string option"

record render_result =
  final :: session
  raised :: "py_error option"
  llm_calls :: "(chat_model \<times> lc_message list) list"
  streamed :: "string list"

definition stopped :: "session \<Rightarrow> py_error \<Rightarrow> render_result" where
  "stopped s e = \<lparr>final = s, raised = Some e, llm_calls = [], streamed = []\<rparr>"

definition session_messages :: "session \<Rightarrow> py_error + message list" where
  "session_messages s = (case messages s of None \<Rightarrow> Inl AttributeError | Some ms \<Rightarrow> Inr ms)"

text \<open>Lines 312 to 337: widget key, sidebar, model object, chain, upload widget key.\<close>

definition prepare ::
  "(string \<times> model_config) list \<Rightarrow> render_input \<Rightarrow> session
     \<Rightarrow> session \<times> (py_error + chat_model \<times> conversation_chain)" where
  "prepare cfg inp s0 =
     (let s1 = (if widget_key s0 = None then s0\<lparr>widget_key := Some (widget_key_draw inp)\<rparr>
                else s0)
      in case render_sidebar cfg (sidebar inp) s1 of
           (s2, Inl e) \<Rightarrow> (s2, Inl e)
         | (s2, Inr (model_kwargs, memory_window)) \<Rightarrow>
             (case model_name s2 of
                None \<Rightarrow> (s2, Inl KeyError)
              | Some name \<Rightarrow>
                  (let cm = \<lparr>cm_model_name = name, cm_model_kwargs = model_kwargs\<rparr>;
                       built = init_conversationchain cm memory_window s2;
                       s3 = snd built;
                       s4 = (if file_uploader_key s3 = None
                             then s3\<lparr>file_uploader_key := Some 0\<rparr> else s3)
                   in case map_of cfg name of
                        None \<Rightarrow> (s4, Inl KeyError)
                      | Some model_config \<Rightarrow> (s4, Inr (cm, fst built)))))"

text \<open>The identifiers that past user messages list under \<^verbatim>\<open>images\<close> (lines 346 to 353).\<close>

definition message_images_list :: "message list \<Rightarrow> string list" where
  "message_images_list ms =
     concat (map images_of (filter (\<lambda>m. role m = ''user'' \<and> has_images m) ms))"

definition prompt_given :: "string option \<Rightarrow> bool" where
  "prompt_given p = (case p of None \<Rightarrow> False | Some t \<Rightarrow> t \<noteq> [])"

definition prompt_text :: "string option \<Rightarrow> string" where
  "prompt_text p = (case p of None \<Rightarrow> [] | Some t \<Rightarrow> t)"

text \<open>\<^verbatim>\<open>formatted_prompt.append(content_image)\<close> for each block: only a list has it.\<close>

fun py_append :: "pyval \<Rightarrow> pyval \<Rightarrow> py_error + pyval" where
  "py_append (PList xs) x = Inr (PList (xs @ [x]))"
| "py_append other x = Inl AttributeError"

fun append_all :: "pyval \<Rightarrow> pyval list \<Rightarrow> py_error + pyval" where
  "append_all fp [] = Inr fp"
| "append_all fp (b # bs) = and_then (py_append fp b) (\<lambda>fp'. append_all fp' bs)"

text \<open>
  Lines 356 to 376. The second component is the exception raised, or the local variable
  \<^verbatim>\<open>formatted_prompt\<close> afterwards: \<open>None\<close> when neither branch assigned it.
\<close>

definition user_turn ::
  "backend \<Rightarrow> chat_model \<Rightarrow> render_input \<Rightarrow> session \<Rightarrow> session \<times> (py_error + pyval option)" where
  "user_turn be cm inp s =
     (case messages s of
        None \<Rightarrow> (s, Inl AttributeError)
      | Some ms \<Rightarrow>
          (if uploaded_files inp \<noteq> []
              \<and> length (message_images_list ms) < length (uploaded_files inp)
           then
             (case display_uploaded_images (uploaded_files inp) (message_images_list ms) [] of
                Inl e \<Rightarrow> (s, Inl e)
              | Inr (content_images, uploaded_file_ids, thumbs) \<Rightarrow>
                  (if prompt_given (prompt inp) then
                     (case and_then (format_prompt be cm (prompt_text (prompt inp)))
                             (\<lambda>fp. append_all fp content_images) of
                        Inl e \<Rightarrow> (s, Inl e)
                      | Inr formatted_prompt \<Rightarrow>
                          (s\<lparr>messages := Some (ms @
                               [\<lparr>role = ''user'', content = formatted_prompt,
                                 images = Some uploaded_file_ids\<rparr>])\<rparr>,
                           Inr (Some formatted_prompt)))
                   else (s, Inr None)))
           else if prompt_given (prompt inp) then
             (case format_prompt be cm (prompt_text (prompt inp)) of
                Inl e \<Rightarrow> (s, Inl e)
              | Inr formatted_prompt \<Rightarrow>
                  (s\<lparr>messages := Some (ms @
                       [\<lparr>role = ''user'', content = formatted_prompt, images = None\<rparr>])\<rparr>,
                   Inr (Some formatted_prompt)))
           else (s, Inr None)))"

text \<open>Lines 379 to 381: the memory log is rewritten by \<^verbatim>\<open>langchain_messages_format\<close>.\<close>

definition normalize_memory :: "session \<Rightarrow> session \<times> py_error option" where
  "normalize_memory s =
     (case langchain_messages s of
        None \<Rightarrow> (s, Some KeyError)
      | Some mem \<Rightarrow>
          (case langchain_messages_format mem of
             (mem', r) \<Rightarrow> (s\<lparr>langchain_messages := Some mem'\<rparr>, r)))"

text \<open>
  Lines 384 to 390. Reading \<^verbatim>\<open>formatted_prompt\<close> when it was never assigned raises
  before the chain is called.
\<close>

definition respond ::
  "backend \<Rightarrow> conversation_chain \<Rightarrow> pyval option \<Rightarrow> session \<Rightarrow> render_result" where
  "respond be conversation formatted_prompt s =
     (case messages s of
        None \<Rightarrow> stopped s AttributeError
      | Some ms \<Rightarrow>
          (if ms = [] then stopped s IndexError
           else if role (last ms) \<noteq> ''assistant'' then
             (case formatted_prompt of
                None \<Rightarrow> stopped s UnboundLocalError
              | Some fp \<Rightarrow>
                  (case langchain_messages s of
                     None \<Rightarrow> stopped s KeyError
                   | Some memory \<Rightarrow>
                       (let inv = generate_response be conversation
                                    (PList [PDict [(''role'', PStr ''user''), (''content'', fp)]])
                                    memory
                        in case inv_result inv of
                             Inl e \<Rightarrow>
                               \<lparr>final = s, raised = Some e, llm_calls = inv_calls inv,
                                streamed = h_container (inv_handler inv)\<rparr>
                           | Inr (response, memory') \<Rightarrow>
                               \<lparr>final = s\<lparr>langchain_messages := Some memory',
                                          messages := Some (ms @
                                            [\<lparr>role = ''assistant'', content = response,
                                              images = None\<rparr>])\<rparr>,
                                raised = None, llm_calls = inv_calls inv,
                                streamed = h_container (inv_handler inv)\<rparr>)))
           else \<lparr>final = s, raised = None, llm_calls = [], streamed = []\<rparr>))"

text \<open>Lines 312 to 381 of \<^verbatim>\<open>main\<close>: everything before the generation branch.\<close>

definition before_generation ::
  "backend \<Rightarrow> (string \<times> model_config) list \<Rightarrow> render_input \<Rightarrow> session
     \<Rightarrow> session \<times> (py_error + conversation_chain \<times> pyval option)" where
  "before_generation be cfg inp s0 =
     (case prepare cfg inp s0 of
        (s, Inl e) \<Rightarrow> (s, Inl e)
      | (s, Inr (cm, conv_chain)) \<Rightarrow>
          (case and_then (session_messages s) (display_chat_messages (uploaded_files inp)) of
             Inl e \<Rightarrow> (s, Inl e)
           | Inr u \<Rightarrow>
               (case user_turn be cm inp s of
                  (s', Inl e) \<Rightarrow> (s', Inl e)
                | (s', Inr formatted_prompt) \<Rightarrow>
                    (case normalize_memory s' of
                       (s'', Some e) \<Rightarrow> (s'', Inl e)
                     | (s'', None) \<Rightarrow> (s'', Inr (conv_chain, formatted_prompt))))))"

definition main ::
  "backend \<Rightarrow> (string \<times> model_config) list \<Rightarrow> render_input \<Rightarrow> session \<Rightarrow> render_result" where
  "main be cfg inp s0 =
     (case before_generation be cfg inp s0 of
        (s, Inl e) \<Rightarrow> stopped s e
      | (s, Inr (conv_chain, formatted_prompt)) \<Rightarrow> respond be conv_chain formatted_prompt s)"

text \<open>\<^verbatim>\<open>messages[0]\<close> of a session, when the log exists and is not empty.\<close>

definition first_message :: "session \<Rightarrow> message option" where
  "first_message s =
     (case messages s of None \<Rightarrow> None | Some [] \<Rightarrow> None | Some (m # ms) \<Rightarrow> Some m)"

text \<open>
  What the stream handler has drawn after a sequence of tokens: after each token, the text
  of all tokens so far.
\<close>

definition running_text :: "string list \<Rightarrow> string list" where
  "running_text tokens = map (\<lambda>n. concat (take (Suc n) tokens)) [0..<length tokens]"

section \<open>A concrete configuration, backend and session\<close>

text \<open>
  Concrete inputs on which the theorems below are instantiated: a store with one model
  that takes a system prompt and one that does not, a backend whose prompt format is a
  list with one text block, whose model streams two tokens, and whose memory window keeps
  the last \<open>k\<close> exchanges, and a session as the first render leaves it.
\<close>

definition example_config :: "(string \<times> model_config) list" where
  "example_config =
     [(''Claude 3 Sonnet'', [(''temperature'', PFloat 1), (''max_tokens'', PInt 4096)]),
      (''Titan Text'', [(''system_prompt_disabled'', PBool True)])]"

definition example_widgets :: widgets where
  "example_widgets =
     \<lparr>model_select = ''Claude 3 Sonnet'', system_prompt_w = ''Be brief.'',
      temperature_w = 1, top_p_w = 1, top_k_w = 500, max_tokens_w = 4096,
      memory_window_w = 10\<rparr>"

fun example_input_messages :: "pyval \<Rightarrow> py_error + lc_message list" where
  "example_input_messages (PList [PDict d]) =
     (case map_of d ''content'' of None \<Rightarrow> Inl ValueError | Some c \<Rightarrow> Inr [HumanMessage c])"
| "example_input_messages other = Inl ValueError"

definition example_backend :: backend where
  "example_backend =
     \<lparr>format_prompt = (\<lambda>cm p. Inr (PList [PDict [(''type'', PStr ''text''), (''text'', PStr p)]])),
      llm = (\<lambda>cm context. ([''Hi'', '' there''], Inr ''Hi there'')),
      window = (\<lambda>k ms. if k > 0 then drop (length ms - 2 * nat k) ms else []),
      input_messages = example_input_messages\<rparr>"

definition failing_backend :: backend where
  "failing_backend = example_backend\<lparr>llm := (\<lambda>cm context. ([''Par''], Inl BackendError))\<rparr>"

definition fresh_session :: session where
  "fresh_session =
     \<lparr>widget_key = Some ''424242'', model_name = Some ''Claude 3 Sonnet'',
      messages = Some [INIT_MESSAGE], langchain_messages = Some [],
      file_uploader_key = Some 0\<rparr>"

definition hello_input :: render_input where
  "hello_input =
     \<lparr>widget_key_draw = ''424242'', sidebar = example_widgets, uploaded_files = [],
      prompt = Some ''Hello''\<rparr>"

definition png_upload :: uploaded_file where
  "png_upload = \<lparr>file_id = ''f1'', opened = Some \<lparr>img_format = ''PNG'', img_b64 = ''iVBORw0KGgo=''\<rparr>\<rparr>"

text \<open>The model object, the chain and the formatted prompt of the render of "Hello".\<close>

definition hello_model :: chat_model where
  "hello_model =
     \<lparr>cm_model_name = ''Claude 3 Sonnet'',
      cm_model_kwargs =
        [(''temperature'', PFloat 1), (''top_p'', PFloat 1), (''top_k'', PInt 500),
         (''max_tokens'', PInt 4096), (''system'', PStr ''Be brief.'')]\<rparr>"

definition hello_chain :: conversation_chain where
  "hello_chain = \<lparr>chain_llm = hello_model, chain_k = 10, chain_prompt = CLAUDE_PROMPT\<rparr>"

definition hello_formatted :: pyval where
  "hello_formatted = PList [PDict [(''type'', PStr ''text''), (''text'', PStr ''Hello'')]]"

definition hello_turn_input :: pyval where
  "hello_turn_input = PList [PDict [(''role'', PStr ''user''), (''content'', hello_formatted)]]"

definition hello_user_message :: message where
  "hello_user_message = \<lparr>role = ''user'', content = hello_formatted, images = None\<rparr>"

text \<open>
  The session in which a user message is last (a turn whose model call failed), the
  session after a completed turn, a backend whose model streams nothing, and a render
  without a submitted prompt.
\<close>

definition awaiting_session :: session where
  "awaiting_session = fresh_session\<lparr>messages := Some [INIT_MESSAGE, hello_user_message]\<rparr>"

definition talked_session :: session where
  "talked_session =
     fresh_session
       \<lparr>messages := Some [INIT_MESSAGE, hello_user_message,
           \<lparr>role = ''assistant'',
            content = PDict [(''input'', hello_turn_input), (''response'', PStr ''Hi there'')],
            images = None\<rparr>],
        langchain_messages := Some [HumanMessage hello_turn_input, AIMessage (PStr ''Hi there'')]\<rparr>"

definition silent_backend :: backend where
  "silent_backend = example_backend\<lparr>llm := (\<lambda>cm context. ([], Inr []))\<rparr>"

definition no_prompt_input :: render_input where
  "no_prompt_input = hello_input\<lparr>prompt := None\<rparr>"

text \<open>A memory entry whose wrapped content is again a role-tagged list.\<close>

definition nested_memory :: "lc_message list" where
  "nested_memory =
     [HumanMessage (PList [PDict [(''role'', PStr ''user''),
        (''content'', PList [PDict [(''role'', PStr ''user''), (''content'', PStr ''x'')]])]])]"

section \<open>Supporting lemmas\<close>

lemmas render_defs =
  main_def before_generation_def prepare_def render_sidebar_def init_conversationchain_def
  session_messages_def display_one_message_def display_user_message_def
  display_assistant_message_def display_images_def has_images_def images_of_def
  user_turn_def message_images_list_def prompt_given_def prompt_text_def
  display_uploaded_images_def Image_open_def image_block_def num_cols_def
  normalize_memory_def format_entry_def wrapped_content_def new_message_def respond_def
  stopped_def
  generate_response_def chain_invoke_def fill_template_def CLAUDE_PROMPT_def StreamHandler_def
  on_llm_new_token_def and_then_def dict_get_def has_key_def system_prompt_disabled_def
  INIT_MESSAGE_def Let_def

lemmas example_defs =
  example_config_def example_widgets_def example_backend_def failing_backend_def
  silent_backend_def fresh_session_def hello_input_def no_prompt_input_def png_upload_def
  hello_model_def hello_chain_def hello_formatted_def hello_turn_input_def
  hello_user_message_def awaiting_session_def talked_session_def

subsection \<open>The attachment loop\<close>

text \<open>
  When every unconsumed file decodes, the loop returns one block per uploaded file whose
  identifier is not in the consumed list, in upload order, and appends those identifiers
  to the caller's list.
\<close>

lemma display_uploaded_images_loop_unconsumed:
  "list_all (\<lambda>f. file_id f \<in> set mil \<or> opened f \<noteq> None) ufs \<Longrightarrow>
   \<exists>thumbs'. display_uploaded_images_loop ufs mil i blocks ids thumbs =
     Inr (blocks @ map (\<lambda>f. image_block (the (opened f)))
                      (filter (\<lambda>f. file_id f \<notin> set mil) ufs),
          ids @ map file_id (filter (\<lambda>f. file_id f \<notin> set mil) ufs), thumbs')"
proof (induction ufs arbitrary: i blocks ids thumbs)
  case Nil
  then show ?case by simp
next
  case (Cons f fs)
  show ?case
  proof (cases "file_id f \<in> set mil")
    case True
    with Cons show ?thesis by simp
  next
    case False
    with Cons.prems obtain img where img: "opened f = Some img"
      by auto
    from Cons.prems have rest: "list_all (\<lambda>f. file_id f \<in> set mil \<or> opened f \<noteq> None) fs"
      by simp
    show ?thesis
      using Cons.IH [OF rest, of "if Suc i \<ge> num_cols then 0 else Suc i"
          "blocks @ [image_block img]" "ids @ [file_id f]" "thumbs @ [(i, file_id f)]"]
        False img
      by (simp add: Image_open_def)
  qed
qed

lemma display_uploaded_images_unconsumed:
  "list_all (\<lambda>f. file_id f \<in> set mil \<or> opened f \<noteq> None) ufs \<Longrightarrow>
   \<exists>thumbs'. display_uploaded_images ufs mil [] =
     Inr (map (\<lambda>f. image_block (the (opened f))) (filter (\<lambda>f. file_id f \<notin> set mil) ufs),
          map file_id (filter (\<lambda>f. file_id f \<notin> set mil) ufs), thumbs')"
  using display_uploaded_images_loop_unconsumed [of mil ufs 0 "[]" "[]" "[]"]
  by (simp add: display_uploaded_images_def)

subsection \<open>The memory bridge\<close>

lemma format_entry_settled: "settled m \<Longrightarrow> format_entry m = Inr m"
proof (cases "lc_content m")
  case (PList xs)
  assume "settled m"
  with PList show ?thesis
    by (cases xs) (simp_all add: settled_def format_entry_def and_then_def)
qed (simp_all add: format_entry_def)

lemma format_entry_wrapped: "wrapped m \<Longrightarrow> \<exists>m'. format_entry m = Inr m' \<and> settled m'"
proof (cases "lc_content m")
  case (PList xs)
  assume w: "wrapped m"
  show ?thesis
  proof (cases xs)
    case Nil
    with PList w show ?thesis by (simp add: wrapped_def)
  next
    case (Cons x ys)
    with PList w show ?thesis
      by (cases m)
        (auto simp add: wrapped_def format_entry_def wrapped_content_def and_then_def
          new_message_def settled_def split: sum.splits)
  qed
qed (simp_all add: wrapped_def)

lemma langchain_messages_format_settled:
  "list_all settled ms \<Longrightarrow> langchain_messages_format ms = (ms, None)"
  by (induction ms) (simp_all add: format_entry_settled)

lemma langchain_messages_format_settles:
  "list_all (\<lambda>m. settled m \<or> wrapped m) ms \<Longrightarrow>
     snd (langchain_messages_format ms) = None \<and>
     list_all settled (fst (langchain_messages_format ms))"
proof (induction ms)
  case Nil
  then show ?case by simp
next
  case (Cons m ms)
  then obtain m' where "format_entry m = Inr m'" "settled m'"
    using format_entry_settled format_entry_wrapped by fastforce
  with Cons show ?case
    by (cases "langchain_messages_format ms") simp
qed

subsection \<open>The stream handler\<close>

lemma stream_text: "h_text (foldl on_llm_new_token h tokens) = h_text h @ concat tokens"
  by (induction tokens arbitrary: h) (simp_all add: on_llm_new_token_def)

lemma stream_container:
  "h_container (foldl on_llm_new_token h tokens) =
     h_container h @ map (\<lambda>t. h_text h @ t) (running_text tokens)"
proof (induction tokens rule: rev_induct)
  case Nil
  then show ?case by (simp add: running_text_def)
next
  case (snoc t ts)
  have "running_text (ts @ [t]) = running_text ts @ [concat ts @ t]"
    by (simp add: running_text_def)
  moreover have "h_container (on_llm_new_token h' t) = h_container h' @ [h_text h' @ t]" for h'
    by (simp add: on_llm_new_token_def)
  ultimately show ?case
    using snoc by (simp add: stream_text)
qed

lemma generate_response_calls:
  "input_messages be inp = Inr turn \<Longrightarrow>
   inv_calls (generate_response be
       \<lparr>chain_llm = cm, chain_k = k, chain_prompt = CLAUDE_PROMPT\<rparr> inp mem)
     = [(cm, window be k mem @ turn)] \<and>
   h_container (inv_handler (generate_response be
       \<lparr>chain_llm = cm, chain_k = k, chain_prompt = CLAUDE_PROMPT\<rparr> inp mem))
     = running_text (fst (llm be cm (window be k mem @ turn)))"
  by (simp add: generate_response_def chain_invoke_def fill_template_def CLAUDE_PROMPT_def
      Let_def stream_container StreamHandler_def)

lemma generate_response_calls_le:
  "length (inv_calls (generate_response be conv inp mem)) \<le> 1"
  by (simp add: generate_response_def chain_invoke_def Let_def split: sum.splits)

subsection \<open>The steps of a render\<close>

lemma prepare_messages:
  "messages s = Some ms \<Longrightarrow> messages (fst (prepare cfg inp s)) = Some ms"
  by (simp add: prepare_def render_sidebar_def init_conversationchain_def Let_def
      split: option.splits)

lemma prepare_memory:
  "langchain_messages s = Some mem \<Longrightarrow>
     langchain_messages (fst (prepare cfg inp s)) = Some mem"
  by (simp add: prepare_def render_sidebar_def init_conversationchain_def Let_def
      split: option.splits)

lemma prepare_chain:
  "prepare cfg inp s = (s1, Inr (cm, conv)) \<Longrightarrow>
     conv = \<lparr>chain_llm = cm, chain_k = memory_window_w (sidebar inp),
             chain_prompt = CLAUDE_PROMPT\<rparr> \<and>
     cm_model_name cm = model_select (sidebar inp) \<and>
     snd (render_sidebar cfg (sidebar inp) s0)
       = Inr (cm_model_kwargs cm, memory_window_w (sidebar inp))"
  by (auto simp add: prepare_def render_sidebar_def init_conversationchain_def Let_def
      split: option.splits if_splits)

lemma user_turn_no_prompt:
  "\<not> prompt_given (prompt inp) \<Longrightarrow>
     fst (user_turn be cm inp s) = s \<and>
     (snd (user_turn be cm inp s) = Inr None \<or> (\<exists>e. snd (user_turn be cm inp s) = Inl e))"
  by (simp add: user_turn_def split: option.splits sum.splits prod.splits)

lemma user_turn_appended:
  "user_turn be cm inp s = (s', Inr (Some fp)) \<Longrightarrow>
     prompt_given (prompt inp) \<and>
     (\<exists>ms imgs. messages s = Some ms \<and>
        s' = s\<lparr>messages := Some (ms @ [\<lparr>role = ''user'', content = fp, images = imgs\<rparr>])\<rparr>)"
  by (auto simp add: user_turn_def split: option.splits sum.splits prod.splits if_splits)

lemma normalize_memory_messages:
  "messages (fst (normalize_memory s)) = messages s"
  by (simp add: normalize_memory_def split: option.splits prod.splits)

lemma respond_unassigned:
  "final (respond be conv None s) = s \<and> llm_calls (respond be conv None s) = [] \<and>
   streamed (respond be conv None s) = []"
  by (simp add: respond_def stopped_def split: option.splits)

lemma respond_after_user:
  assumes "messages s = Some ms" "ms \<noteq> []" "role (last ms) = ''user''"
    "langchain_messages s = Some mem"
  shows "respond be conv (Some fp) s =
     (let inv = generate_response be conv
                  (PList [PDict [(''role'', PStr ''user''), (''content'', fp)]]) mem
      in case inv_result inv of
           Inl e \<Rightarrow> \<lparr>final = s, raised = Some e, llm_calls = inv_calls inv,
                      streamed = h_container (inv_handler inv)\<rparr>
         | Inr (response, memory') \<Rightarrow>
             \<lparr>final = s\<lparr>langchain_messages := Some memory',
                        messages := Some (ms @
                          [\<lparr>role = ''assistant'', content = response, images = None\<rparr>])\<rparr>,
              raised = None, llm_calls = inv_calls inv,
              streamed = h_container (inv_handler inv)\<rparr>)"
  using assms by (simp add: respond_def)

lemma display_greeting: "display_chat_messages ufs [INIT_MESSAGE] = Inr ()"
  by (simp add: display_one_message_def display_assistant_message_def has_images_def
      INIT_MESSAGE_def and_then_def)

lemma before_generation_no_prompt:
  assumes "messages s = Some ms" "\<not> prompt_given (prompt inp)"
  shows "messages (fst (before_generation be cfg inp s)) = Some ms \<and>
         (\<forall>conv fp. snd (before_generation be cfg inp s) = Inr (conv, fp) \<longrightarrow> fp = None)"
proof -
  obtain s1 r1 where p: "prepare cfg inp s = (s1, r1)"
    by (cases "prepare cfg inp s")
  have m1: "messages s1 = Some ms"
    using prepare_messages [OF assms(1), of cfg inp] p by simp
  show ?thesis
  proof (cases r1)
    case (Inl e)
    with p m1 show ?thesis by (simp add: before_generation_def)
  next
    case (Inr pr)
    obtain cm conv where pr: "pr = (cm, conv)"
      by (cases pr)
    show ?thesis
    proof (cases "and_then (session_messages s1) (display_chat_messages (uploaded_files inp))")
      case (Inl e)
      with p Inr pr m1 show ?thesis by (simp add: before_generation_def)
    next
      case d: (Inr u)
      obtain s2 r2 where u: "user_turn be cm inp s1 = (s2, r2)"
        by (cases "user_turn be cm inp s1")
      have s2: "s2 = s1" and r2: "r2 = Inr None \<or> (\<exists>e. r2 = Inl e)"
        using user_turn_no_prompt [OF assms(2), of be cm s1] u by simp_all
      obtain s3 r3 where n: "normalize_memory s1 = (s3, r3)"
        by (cases "normalize_memory s1")
      have m3: "messages s3 = Some ms"
        using normalize_memory_messages [of s1] n m1 by simp
      from r2 show ?thesis
      proof
        assume "r2 = Inr None"
        with p Inr pr d u s2 n m3 show ?thesis
          by (cases r3) (simp_all add: before_generation_def)
      next
        assume "\<exists>e. r2 = Inl e"
        with p Inr pr d u s2 m1 show ?thesis
          by (auto simp add: before_generation_def)
      qed
    qed
  qed
qed

lemma before_generation_success:
  assumes "before_generation be cfg inp s = (s', Inr (conv, fpo))"
  shows "\<exists>cm s1 s2. prepare cfg inp s = (s1, Inr (cm, conv)) \<and>
           user_turn be cm inp s1 = (s2, Inr fpo) \<and> normalize_memory s2 = (s', None)"
  using assms
  by (auto simp add: before_generation_def split: prod.splits sum.splits option.splits)

lemma before_generation_appended:
  assumes "before_generation be cfg inp s = (s', Inr (conv, Some fp))"
  shows "\<exists>ms imgs cm.
           messages s' = Some (ms @ [\<lparr>role = ''user'', content = fp, images = imgs\<rparr>]) \<and>
           prompt_given (prompt inp) \<and>
           conv = \<lparr>chain_llm = cm, chain_k = memory_window_w (sidebar inp),
                   chain_prompt = CLAUDE_PROMPT\<rparr> \<and>
           cm_model_name cm = model_select (sidebar inp) \<and>
           snd (render_sidebar cfg (sidebar inp) s)
             = Inr (cm_model_kwargs cm, memory_window_w (sidebar inp))"
proof -
  from before_generation_success [OF assms] obtain cm s1 s2 where
    p: "prepare cfg inp s = (s1, Inr (cm, conv))" and
    u: "user_turn be cm inp s1 = (s2, Inr (Some fp))" and
    n: "normalize_memory s2 = (s', None)"
    by blast
  from user_turn_appended [OF u] obtain ms imgs where
    g: "prompt_given (prompt inp)" and
    m2: "s2 = s1\<lparr>messages := Some (ms @ [\<lparr>role = ''user'', content = fp, images = imgs\<rparr>])\<rparr>"
    by blast
  have "messages s' = messages s2"
    using normalize_memory_messages [of s2] n by simp
  with m2 have "messages s' = Some (ms @ [\<lparr>role = ''user'', content = fp, images = imgs\<rparr>])"
    by simp
  with g prepare_chain [OF p, of s] show ?thesis
    by blast
qed

subsection \<open>Renders of the concrete session\<close>

lemma hello_prepare:
  "prepare example_config hello_input fresh_session = (fresh_session, Inr (hello_model, hello_chain))"
  by (simp add: render_defs example_defs)

lemma hello_before_generation:
  "before_generation example_backend example_config hello_input fresh_session =
     (awaiting_session, Inr (hello_chain, Some hello_formatted))"
  by (simp add: render_defs example_defs)

lemma silent_before_generation:
  "before_generation silent_backend example_config hello_input fresh_session =
     (awaiting_session, Inr (hello_chain, Some hello_formatted))"
  by (simp add: render_defs example_defs)

lemma no_prompt_before_generation:
  "before_generation example_backend example_config no_prompt_input awaiting_session =
     (awaiting_session, Inr (hello_chain, None))"
  by (simp add: render_defs example_defs)

lemma talked_before_generation:
  "before_generation example_backend example_config hello_input talked_session =
     (talked_session
        \<lparr>messages := Some [INIT_MESSAGE, hello_user_message,
            \<lparr>role = ''assistant'',
             content = PDict [(''input'', hello_turn_input), (''response'', PStr ''Hi there'')],
             images = None\<rparr>, hello_user_message],
         langchain_messages := Some [HumanMessage hello_formatted, AIMessage (PStr ''Hi there'')]\<rparr>,
      Inr (hello_chain, Some hello_formatted))"
  by (simp add: render_defs example_defs)

section \<open>Session lifecycle\<close>

text \<open>
  Claim C6. Immediately after initialisation of a session that has no message log, and
  immediately after a reset, the first message of the log is the fixed assistant greeting.
\<close>

theorem greeting_first_after_init_and_reset:
  "messages s = None \<Longrightarrow>
     first_message (snd (init_conversationchain cm k s)) = Some INIT_MESSAGE \<and>
     first_message (new_chat r s') = Some INIT_MESSAGE \<and>
     role INIT_MESSAGE = ''assistant'' \<and>
     content INIT_MESSAGE = PStr ''Hi! I'm your AI Bot on Bedrock. How may I help you?''"
  by (simp add: init_conversationchain_def new_chat_def first_message_def Let_def
      INIT_MESSAGE_def)

theorem greeting_first_after_init_and_reset_witness:
  "messages empty_session = None \<and>
   first_message (snd (init_conversationchain hello_model 10 empty_session))
     = Some INIT_MESSAGE \<and>
   first_message (new_chat 7 talked_session) = Some INIT_MESSAGE"
proof -
  have h: "messages empty_session = None"
    by (simp add: empty_session_def)
  show ?thesis
    using h greeting_first_after_init_and_reset [OF h, of hello_model 10 7 talked_session]
    by simp
qed

text \<open>
  Claim C5, as the code has it. A reset leaves the message log equal to the greeting
  alone, leaves the memory log empty and sets the upload widget key to the number drawn
  from 1 to 100. The new key differs from the key 0 of an initialised session; it equals
  the key before the reset exactly when that key is the number drawn.
\<close>

theorem new_chat_resets_session:
  "1 \<le> r \<Longrightarrow> r \<le> 100 \<Longrightarrow>
     messages (new_chat r s) = Some [INIT_MESSAGE] \<and>
     langchain_messages (new_chat r s) = Some [] \<and>
     file_uploader_key (new_chat r s) = Some r \<and>
     file_uploader_key (new_chat r s) \<noteq> Some 0 \<and>
     (file_uploader_key (new_chat r s) = file_uploader_key s
        \<longleftrightarrow> file_uploader_key s = Some r)"
  by (auto simp add: new_chat_def)

theorem new_chat_resets_session_witness:
  "(1::int) \<le> 7 \<and> (7::int) \<le> 100 \<and>
   messages (new_chat 7 talked_session) = Some [INIT_MESSAGE] \<and>
   langchain_messages (new_chat 7 talked_session) = Some [] \<and>
   file_uploader_key (new_chat 7 talked_session) = Some 7 \<and>
   file_uploader_key (new_chat 7 talked_session) \<noteq> file_uploader_key talked_session"
proof -
  have a: "(1::int) \<le> 7" and b: "(7::int) \<le> 100"
    by simp_all
  have c: "file_uploader_key talked_session \<noteq> Some 7"
    by (simp add: talked_session_def fresh_session_def)
  show ?thesis
    using a b c new_chat_resets_session [OF a b, of talked_session]
    by simp
qed

text \<open>
  Claim C5 as stated fails: a session whose key is 42 from an earlier reset, reset again
  with the draw 42, keeps its key.
\<close>

theorem new_chat_epoch_can_repeat:
  "(1::int) \<le> 42 \<and> (42::int) \<le> 100 \<and>
   file_uploader_key (new_chat 42 (new_chat 42 fresh_session))
     = file_uploader_key (new_chat 42 fresh_session)"
  by (simp add: new_chat_def)

section \<open>Parameter resolver\<close>

text \<open>
  Claim C3. For a model whose configuration record marks the system prompt as disabled,
  the inference parameters that \<^verbatim>\<open>render_sidebar\<close> returns have no \<^verbatim>\<open>system\<close> key at
  all; for every other model the key is present and holds the value of the system prompt
  widget.
\<close>

theorem system_prompt_omitted_when_disabled:
  "map_of cfg (model_select w) = Some mc \<Longrightarrow>
     \<exists>s' kw mw. render_sidebar cfg w s = (s', Inr (kw, mw)) \<and>
       (system_prompt_disabled mc \<longrightarrow> \<not> has_key kw ''system'') \<and>
       (\<not> system_prompt_disabled mc \<longrightarrow>
          map_of kw ''system'' = Some (PStr (system_prompt_w w)))"
  by (simp add: render_sidebar_def has_key_def Let_def)

theorem system_prompt_omitted_when_disabled_witness:
  "map_of example_config (model_select (example_widgets\<lparr>model_select := ''Titan Text''\<rparr>))
     = Some [(''system_prompt_disabled'', PBool True)] \<and>
   system_prompt_disabled [(''system_prompt_disabled'', PBool True)] \<and>
   (\<exists>s' kw mw.
      render_sidebar example_config (example_widgets\<lparr>model_select := ''Titan Text''\<rparr>)
        fresh_session = (s', Inr (kw, mw)) \<and> \<not> has_key kw ''system'')"
proof -
  have h: "map_of example_config (model_select (example_widgets\<lparr>model_select := ''Titan Text''\<rparr>))
             = Some [(''system_prompt_disabled'', PBool True)]"
    by (simp add: example_config_def)
  have d: "system_prompt_disabled [(''system_prompt_disabled'', PBool True)]"
    by (simp add: system_prompt_disabled_def dict_get_def)
  show ?thesis
    using h d system_prompt_omitted_when_disabled [OF h, of fresh_session]
    by blast
qed

section \<open>Attachment tracker\<close>

text \<open>
  Claim C2 asks that each block be tagged with the media type of its attachment. The code
  re-encodes an image in its own format and tags every block \<^verbatim>\<open>image/jpeg\<close>: for one
  uploaded PNG file and no consumed identifiers, the tracker returns one block for it,
  tagged \<^verbatim>\<open>image/jpeg\<close>, and the identifier of the file.
\<close>

theorem uploaded_png_tagged_jpeg:
  "opened png_upload = Some \<lparr>img_format = ''PNG'', img_b64 = ''iVBORw0KGgo=''\<rparr> \<and>
   display_uploaded_images [png_upload] [] [] =
     Inr ([PDict [(''type'', PStr ''image''),
                  (''source'', PDict [(''type'', PStr ''base64''),
                                      (''media_type'', PStr ''image/jpeg''),
                                      (''data'', PStr ''iVBORw0KGgo='')])]],
          [''f1''], [(0, ''f1'')])"
  by (simp add: display_uploaded_images_def png_upload_def Image_open_def image_block_def
      num_cols_def)

section \<open>Turn driver\<close>

text \<open>
  Claim C1. On a fresh session, whose message log is the greeting alone and whose memory
  log is empty, a render with the prompt "Hello" and no uploaded files appends one user
  message whose content is the adapter's formatting of "Hello" and, when the chain
  invocation returns, one assistant message that holds the response: the log grows from
  one message to three, with roles assistant, user, assistant.
\<close>

theorem hello_turn_appends_user_and_assistant:
  assumes m: "messages s = Some [INIT_MESSAGE]" and l: "langchain_messages s = Some []"
    and u: "uploaded_files inp = []" and p: "prompt inp = Some ''Hello''"
    and pr: "prepare cfg inp s = (s1, Inr (cm, conv))"
    and f: "format_prompt be cm ''Hello'' = Inr fp"
    and g: "inv_result (generate_response be conv
               (PList [PDict [(''role'', PStr ''user''), (''content'', fp)]]) [])
             = Inr (response, mem')"
  shows "raised (main be cfg inp s) = None \<and>
         messages (final (main be cfg inp s)) =
           Some [INIT_MESSAGE, \<lparr>role = ''user'', content = fp, images = None\<rparr>,
                 \<lparr>role = ''assistant'', content = response, images = None\<rparr>] \<and>
         map_option (map role) (messages (final (main be cfg inp s))) =
           Some [''assistant'', ''user'', ''assistant''] \<and>
         map_option length (messages s) = Some 1 \<and>
         map_option length (messages (final (main be cfg inp s))) = Some 3"
proof -
  have m1: "messages s1 = Some [INIT_MESSAGE]"
    using prepare_messages [OF m, of cfg inp] pr by simp
  have l1: "langchain_messages s1 = Some []"
    using prepare_memory [OF l, of cfg inp] pr by simp
  let ?log = "[INIT_MESSAGE, \<lparr>role = ''user'', content = fp, images = None\<rparr>]"
  let ?s2 = "s1\<lparr>messages := Some ?log\<rparr>"
  let ?inv = "generate_response be conv
                (PList [PDict [(''role'', PStr ''user''), (''content'', fp)]]) []"
  have ut: "user_turn be cm inp s1 = (?s2, Inr (Some fp))"
    using m1 u p f by (simp add: user_turn_def prompt_given_def prompt_text_def)
  have nm: "normalize_memory ?s2 = (?s2, None)"
    using l1 by (simp add: normalize_memory_def)
  have d: "and_then (session_messages s1) (display_chat_messages (uploaded_files inp)) = Inr ()"
    using m1
    by (simp add: session_messages_def and_then_def display_greeting
        del: display_chat_messages.simps)
  have b: "before_generation be cfg inp s = (?s2, Inr (conv, Some fp))"
    using pr d ut nm by (simp add: before_generation_def)
  have r: "main be cfg inp s = respond be conv (Some fp) ?s2"
    using b by (simp add: main_def)
  have "respond be conv (Some fp) ?s2 =
     \<lparr>final = ?s2\<lparr>langchain_messages := Some mem',
           messages := Some (?log @ [\<lparr>role = ''assistant'', content = response, images = None\<rparr>])\<rparr>,
      raised = None, llm_calls = inv_calls ?inv,
      streamed = h_container (inv_handler ?inv)\<rparr>"
    using respond_after_user [of ?s2 ?log "[]" be conv fp] l1 g
    by (simp add: Let_def)
  then show ?thesis
    using r m by (simp add: INIT_MESSAGE_def)
qed

theorem hello_turn_appends_user_and_assistant_witness:
  "messages fresh_session = Some [INIT_MESSAGE] \<and>
   langchain_messages fresh_session = Some [] \<and>
   uploaded_files hello_input = [] \<and> prompt hello_input = Some ''Hello'' \<and>
   raised (main example_backend example_config hello_input fresh_session) = None \<and>
   messages (final (main example_backend example_config hello_input fresh_session)) =
     Some [INIT_MESSAGE,
           \<lparr>role = ''user'', content = hello_formatted, images = None\<rparr>,
           \<lparr>role = ''assistant'',
            content = PDict [(''input'', hello_turn_input), (''response'', PStr ''Hi there'')],
            images = None\<rparr>]"
proof -
  have m: "messages fresh_session = Some [INIT_MESSAGE]"
    and l: "langchain_messages fresh_session = Some []"
    by (simp_all add: fresh_session_def)
  have u: "uploaded_files hello_input = []" and p: "prompt hello_input = Some ''Hello''"
    by (simp_all add: hello_input_def)
  have f: "format_prompt example_backend hello_model ''Hello'' = Inr hello_formatted"
    by (simp add: example_backend_def hello_formatted_def)
  have g: "inv_result (generate_response example_backend hello_chain
              (PList [PDict [(''role'', PStr ''user''), (''content'', hello_formatted)]]) [])
            = Inr (PDict [(''input'', hello_turn_input), (''response'', PStr ''Hi there'')],
                   [HumanMessage hello_turn_input, AIMessage (PStr ''Hi there'')])"
    by (simp add: generate_response_def chain_invoke_def example_backend_def
        hello_turn_input_def Let_def)
  show ?thesis
    using m l u p hello_turn_appends_user_and_assistant [OF m l u p hello_prepare f g]
    by simp
qed

text \<open>
  Claim C4. In a render whose submitted prompt is empty, whether or not files are present
  in the upload widget, the message log of an initialised session is left as it was and
  the model is not called.
\<close>

theorem empty_prompt_leaves_messages:
  assumes "messages s = Some ms" "\<not> prompt_given (prompt inp)"
  shows "messages (final (main be cfg inp s)) = Some ms \<and> llm_calls (main be cfg inp s) = []"
proof -
  obtain s' r where b: "before_generation be cfg inp s = (s', r)"
    by (cases "before_generation be cfg inp s")
  have m: "messages s' = Some ms"
    and n: "\<And>conv fp. r = Inr (conv, fp) \<Longrightarrow> fp = None"
    using before_generation_no_prompt [OF assms, of be cfg] b by simp_all
  show ?thesis
  proof (cases r)
    case (Inl e)
    with b m show ?thesis by (simp add: main_def stopped_def)
  next
    case (Inr cf)
    obtain conv fp where cf: "cf = (conv, fp)"
      by (cases cf)
    with Inr n have "fp = None" by simp
    with b Inr cf m show ?thesis by (simp add: main_def respond_unassigned)
  qed
qed

theorem empty_prompt_leaves_messages_witness:
  "messages fresh_session = Some [INIT_MESSAGE] \<and>
   \<not> prompt_given (prompt (no_prompt_input\<lparr>uploaded_files := [png_upload]\<rparr>)) \<and>
   messages (final (main example_backend example_config
       (no_prompt_input\<lparr>uploaded_files := [png_upload]\<rparr>) fresh_session))
     = Some [INIT_MESSAGE] \<and>
   llm_calls (main example_backend example_config
       (no_prompt_input\<lparr>uploaded_files := [png_upload]\<rparr>) fresh_session) = []"
proof -
  have m: "messages fresh_session = Some [INIT_MESSAGE]"
    by (simp add: fresh_session_def)
  have n: "\<not> prompt_given (prompt (no_prompt_input\<lparr>uploaded_files := [png_upload]\<rparr>))"
    by (simp add: no_prompt_input_def hello_input_def prompt_given_def)
  show ?thesis
    using m n empty_prompt_leaves_messages [OF m n, of example_backend example_config]
    by simp
qed

text \<open>
  Claim C10. In a render where the last message of the log has role user and the prompt
  is empty, no branch assigns \<^verbatim>\<open>formatted_prompt\<close>: the render ends with an exception,
  no assistant message is appended and the model is not called. When the steps before the
  generation branch raise nothing, the exception is the read of the unassigned local
  variable.
\<close>

theorem generation_without_prompt_raises:
  assumes "messages s = Some ms" "ms \<noteq> []" "role (last ms) = ''user''"
    "\<not> prompt_given (prompt inp)"
  shows "raised (main be cfg inp s) \<noteq> None \<and>
         messages (final (main be cfg inp s)) = Some ms \<and>
         llm_calls (main be cfg inp s) = [] \<and>
         (\<forall>s' conv fp. before_generation be cfg inp s = (s', Inr (conv, fp)) \<longrightarrow>
            raised (main be cfg inp s) = Some UnboundLocalError)"
proof -
  obtain s' r where b: "before_generation be cfg inp s = (s', r)"
    by (cases "before_generation be cfg inp s")
  have m: "messages s' = Some ms"
    and n: "\<And>conv fp. r = Inr (conv, fp) \<Longrightarrow> fp = None"
    using before_generation_no_prompt [OF assms(1,4), of be cfg] b by simp_all
  show ?thesis
  proof (cases r)
    case (Inl e)
    with b m show ?thesis by (simp add: main_def stopped_def)
  next
    case (Inr cf)
    obtain conv fp where cf: "cf = (conv, fp)"
      by (cases cf)
    with Inr n have "fp = None" by simp
    with b Inr cf m assms(2,3) show ?thesis
      by (simp add: main_def respond_def stopped_def)
  qed
qed

theorem generation_without_prompt_raises_witness:
  "messages awaiting_session = Some [INIT_MESSAGE, hello_user_message] \<and>
   role (last [INIT_MESSAGE, hello_user_message]) = ''user'' \<and>
   \<not> prompt_given (prompt no_prompt_input) \<and>
   raised (main example_backend example_config no_prompt_input awaiting_session)
     = Some UnboundLocalError \<and>
   messages (final (main example_backend example_config no_prompt_input awaiting_session))
     = Some [INIT_MESSAGE, hello_user_message]"
proof -
  have m: "messages awaiting_session = Some [INIT_MESSAGE, hello_user_message]"
    by (simp add: awaiting_session_def)
  have e: "[INIT_MESSAGE, hello_user_message] \<noteq> []"
    by simp
  have l: "role (last [INIT_MESSAGE, hello_user_message]) = ''user''"
    by (simp add: hello_user_message_def)
  have n: "\<not> prompt_given (prompt no_prompt_input)"
    by (simp add: no_prompt_input_def hello_input_def prompt_given_def)
  show ?thesis
    using m l n no_prompt_before_generation
      generation_without_prompt_raises [OF m e l n, of example_backend example_config]
    by simp
qed

text \<open>
  Claim C7, as the code has it. When a render has appended a user message, that message
  is last in the log. If the chain invocation returns, also after streaming no token at
  all, the response is appended as the assistant message and the render ends without an
  exception. If the invocation fails, its exception ends the render and nothing is
  appended: the user message stays last. In both cases the model is called at most once.
\<close>

theorem assistant_appended_when_invocation_returns:
  assumes b: "before_generation be cfg inp s = (s', Inr (conv, Some fp))"
    and mem: "langchain_messages s' = Some mem"
  shows "\<exists>ms. messages s' = Some ms \<and> ms \<noteq> [] \<and>
           role (last ms) = ''user'' \<and> content (last ms) = fp \<and>
     (\<forall>response mem'.
        inv_result (generate_response be conv
            (PList [PDict [(''role'', PStr ''user''), (''content'', fp)]]) mem)
          = Inr (response, mem') \<longrightarrow>
        raised (main be cfg inp s) = None \<and>
        messages (final (main be cfg inp s)) =
          Some (ms @ [\<lparr>role = ''assistant'', content = response, images = None\<rparr>])) \<and>
     (\<forall>e.
        inv_result (generate_response be conv
            (PList [PDict [(''role'', PStr ''user''), (''content'', fp)]]) mem)
          = Inl e \<longrightarrow>
        raised (main be cfg inp s) = Some e \<and>
        messages (final (main be cfg inp s)) = Some ms) \<and>
     length (llm_calls (main be cfg inp s)) \<le> 1"
proof -
  from before_generation_appended [OF b] obtain ms0 imgs where
    m: "messages s' = Some (ms0 @ [\<lparr>role = ''user'', content = fp, images = imgs\<rparr>])"
    by blast
  have r: "main be cfg inp s = respond be conv (Some fp) s'"
    using b by (simp add: main_def)
  show ?thesis
    unfolding r
    using respond_after_user [OF m _ _ mem, of be conv fp] m
      generate_response_calls_le
        [of be conv "PList [PDict [(''role'', PStr ''user''), (''content'', fp)]]" mem]
    by (auto simp add: Let_def split: sum.splits prod.splits)
qed

theorem assistant_appended_when_invocation_returns_witness:
  "before_generation silent_backend example_config hello_input fresh_session
     = (awaiting_session, Inr (hello_chain, Some hello_formatted)) \<and>
   langchain_messages awaiting_session = Some [] \<and>
   streamed (main silent_backend example_config hello_input fresh_session) = [] \<and>
   raised (main silent_backend example_config hello_input fresh_session) = None \<and>
   messages (final (main silent_backend example_config hello_input fresh_session)) =
     Some [INIT_MESSAGE, hello_user_message,
           \<lparr>role = ''assistant'',
            content = PDict [(''input'', hello_turn_input), (''response'', PStr [])],
            images = None\<rparr>]"
proof -
  have mem: "langchain_messages awaiting_session = Some []"
    by (simp add: awaiting_session_def fresh_session_def)
  have m: "messages awaiting_session = Some [INIT_MESSAGE, hello_user_message]"
    by (simp add: awaiting_session_def)
  have g: "inv_result (generate_response silent_backend hello_chain
              (PList [PDict [(''role'', PStr ''user''), (''content'', hello_formatted)]]) [])
            = Inr (PDict [(''input'', hello_turn_input), (''response'', PStr [])],
                   [HumanMessage hello_turn_input, AIMessage (PStr [])])"
    by (simp add: generate_response_def chain_invoke_def silent_backend_def
        example_backend_def hello_turn_input_def Let_def)
  have st: "streamed (main silent_backend example_config hello_input fresh_session) = []"
    by (simp add: render_defs example_defs)
  show ?thesis
    using silent_before_generation mem m g st
      assistant_appended_when_invocation_returns [OF silent_before_generation mem]
    by auto
qed

text \<open>
  Claim C7 as stated fails: when the model fails after streaming the token "Par", the
  render ends with the exception, the log ends with the user message and the streamed
  text is in no message.
\<close>

theorem failed_invocation_appends_nothing:
  "messages (final (main failing_backend example_config hello_input fresh_session)) =
     Some [INIT_MESSAGE,
           \<lparr>role = ''user'',
            content = PList [PDict [(''type'', PStr ''text''), (''text'', PStr ''Hello'')]],
            images = None\<rparr>] \<and>
   raised (main failing_backend example_config hello_input fresh_session) = Some BackendError \<and>
   streamed (main failing_backend example_config hello_input fresh_session) = [''Par'']"
  by (simp add: render_defs example_defs)

text \<open>
  Claim C8. When a render has appended a user message, the model is called once, with the
  model object built from the inference parameters of this render and with the context
  that consists of the memory window over the memory log followed by the new turn; the
  stream handler draws, after each streamed token, the text of all tokens so far.
\<close>

theorem model_called_with_window_and_turn:
  assumes b: "before_generation be cfg inp s = (s', Inr (conv, Some fp))"
    and mem: "langchain_messages s' = Some mem"
    and turn: "input_messages be (PList [PDict [(''role'', PStr ''user''), (''content'', fp)]])
                 = Inr turn"
  shows "\<exists>cm. cm_model_name cm = model_select (sidebar inp) \<and>
           snd (render_sidebar cfg (sidebar inp) s)
             = Inr (cm_model_kwargs cm, memory_window_w (sidebar inp)) \<and>
           llm_calls (main be cfg inp s)
             = [(cm, window be (memory_window_w (sidebar inp)) mem @ turn)] \<and>
           streamed (main be cfg inp s)
             = running_text
                 (fst (llm be cm (window be (memory_window_w (sidebar inp)) mem @ turn)))"
proof -
  from before_generation_appended [OF b] obtain ms imgs cm where
    m: "messages s' = Some (ms @ [\<lparr>role = ''user'', content = fp, images = imgs\<rparr>])" and
    c: "conv = \<lparr>chain_llm = cm, chain_k = memory_window_w (sidebar inp),
                chain_prompt = CLAUDE_PROMPT\<rparr>" and
    nm: "cm_model_name cm = model_select (sidebar inp)" and
    kw: "snd (render_sidebar cfg (sidebar inp) s)
           = Inr (cm_model_kwargs cm, memory_window_w (sidebar inp))"
    by blast
  have r: "main be cfg inp s = respond be conv (Some fp) s'"
    using b by (simp add: main_def)
  have "llm_calls (main be cfg inp s)
          = [(cm, window be (memory_window_w (sidebar inp)) mem @ turn)] \<and>
        streamed (main be cfg inp s)
          = running_text
              (fst (llm be cm (window be (memory_window_w (sidebar inp)) mem @ turn)))"
    unfolding r
    using respond_after_user [OF m _ _ mem, of be conv fp]
      generate_response_calls [OF turn, of cm "memory_window_w (sidebar inp)" mem] c
    by (simp add: Let_def split: sum.splits prod.splits)
  with nm kw show ?thesis
    by blast
qed

theorem model_called_with_window_and_turn_witness:
  "langchain_messages talked_session
     = Some [HumanMessage hello_turn_input, AIMessage (PStr ''Hi there'')] \<and>
   llm_calls (main example_backend example_config hello_input talked_session)
     = [(hello_model,
         [HumanMessage hello_formatted, AIMessage (PStr ''Hi there''),
          HumanMessage hello_formatted])] \<and>
   streamed (main example_backend example_config hello_input talked_session)
     = [''Hi'', ''Hi there'']"
proof -
  let ?s' = "talked_session
        \<lparr>messages := Some [INIT_MESSAGE, hello_user_message,
            \<lparr>role = ''assistant'',
             content = PDict [(''input'', hello_turn_input), (''response'', PStr ''Hi there'')],
             images = None\<rparr>, hello_user_message],
         langchain_messages := Some [HumanMessage hello_formatted, AIMessage (PStr ''Hi there'')]\<rparr>"
  have mem: "langchain_messages ?s'
               = Some [HumanMessage hello_formatted, AIMessage (PStr ''Hi there'')]"
    by simp
  have turn: "input_messages example_backend
                (PList [PDict [(''role'', PStr ''user''), (''content'', hello_formatted)]])
              = Inr [HumanMessage hello_formatted]"
    by (simp add: example_backend_def)
  have w: "window example_backend (memory_window_w (sidebar hello_input))
             [HumanMessage hello_formatted, AIMessage (PStr ''Hi there'')]
           = [HumanMessage hello_formatted, AIMessage (PStr ''Hi there'')]"
    by (simp add: example_backend_def hello_input_def example_widgets_def)
  have l: "langchain_messages talked_session
             = Some [HumanMessage hello_turn_input, AIMessage (PStr ''Hi there'')]"
    by (simp add: talked_session_def)
  have k: "snd (render_sidebar example_config (sidebar hello_input) talked_session)
             = Inr (cm_model_kwargs hello_model, memory_window_w (sidebar hello_input))"
    by (simp add: render_sidebar_def example_defs system_prompt_disabled_def dict_get_def Let_def)
  have t: "llm example_backend cm c = ([''Hi'', '' there''], Inr ''Hi there'')" for cm c
    by (simp add: example_backend_def)
  have rt: "running_text [''Hi'', '' there''] = [''Hi'', ''Hi there'']"
    by (simp add: running_text_def upt_rec)
  from model_called_with_window_and_turn [OF talked_before_generation mem turn]
  obtain cm where
    n: "cm_model_name cm = model_select (sidebar hello_input)" and
    kw: "snd (render_sidebar example_config (sidebar hello_input) talked_session)
           = Inr (cm_model_kwargs cm, memory_window_w (sidebar hello_input))" and
    c: "llm_calls (main example_backend example_config hello_input talked_session)
          = [(cm, window example_backend (memory_window_w (sidebar hello_input))
                    [HumanMessage hello_formatted, AIMessage (PStr ''Hi there'')]
                  @ [HumanMessage hello_formatted])]" and
    st: "streamed (main example_backend example_config hello_input talked_session)
          = running_text (fst (llm example_backend cm
               (window example_backend (memory_window_w (sidebar hello_input))
                    [HumanMessage hello_formatted, AIMessage (PStr ''Hi there'')]
                  @ [HumanMessage hello_formatted])))"
    by blast
  from n kw k have "cm = hello_model"
    by (cases cm) (simp add: hello_model_def hello_input_def example_widgets_def)
  with l c st w t rt show ?thesis
    by simp
qed

section \<open>Memory bridge\<close>

text \<open>
  Claim C9, as the code has it. On a memory log whose entries are each either settled or
  a role-tagged wrapper of a valid settled content, the rewriting raises nothing and
  yields settled entries, and applying it a second time yields the same as applying it
  once; a log of settled entries is left unchanged.
\<close>

theorem langchain_messages_format_idempotent:
  assumes "list_all (\<lambda>m. settled m \<or> wrapped m) ms"
  shows "snd (langchain_messages_format ms) = None \<and>
         langchain_messages_format (fst (langchain_messages_format ms))
           = langchain_messages_format ms \<and>
         (list_all settled ms \<longrightarrow> langchain_messages_format ms = (ms, None))"
proof -
  have once: "snd (langchain_messages_format ms) = None"
    and "list_all settled (fst (langchain_messages_format ms))"
    using langchain_messages_format_settles [OF assms] by simp_all
  then have "langchain_messages_format (fst (langchain_messages_format ms))
               = (fst (langchain_messages_format ms), None)"
    by (simp add: langchain_messages_format_settled)
  with once have "langchain_messages_format (fst (langchain_messages_format ms))
               = langchain_messages_format ms"
    by (cases "langchain_messages_format ms") simp
  with once show ?thesis
    by (simp add: langchain_messages_format_settled)
qed

theorem langchain_messages_format_idempotent_witness:
  "list_all (\<lambda>m. settled m \<or> wrapped m)
     [HumanMessage hello_turn_input, AIMessage (PStr ''Hi there'')] \<and>
   langchain_messages_format [HumanMessage hello_turn_input, AIMessage (PStr ''Hi there'')]
     = ([HumanMessage hello_formatted, AIMessage (PStr ''Hi there'')], None) \<and>
   langchain_messages_format [HumanMessage hello_formatted, AIMessage (PStr ''Hi there'')]
     = ([HumanMessage hello_formatted, AIMessage (PStr ''Hi there'')], None)"
proof -
  have h: "list_all (\<lambda>m. settled m \<or> wrapped m)
             [HumanMessage hello_turn_input, AIMessage (PStr ''Hi there'')]"
    by (simp add: settled_def wrapped_def hello_turn_input_def hello_formatted_def has_key_def)
  have v: "langchain_messages_format [HumanMessage hello_turn_input, AIMessage (PStr ''Hi there'')]
             = ([HumanMessage hello_formatted, AIMessage (PStr ''Hi there'')], None)"
    by (simp add: format_entry_def wrapped_content_def and_then_def new_message_def
        has_key_def hello_turn_input_def hello_formatted_def)
  show ?thesis
    using h v langchain_messages_format_idempotent [OF h]
    by simp
qed

text \<open>
  Claim C9 as stated fails on a log entry whose wrapped content is again a role-tagged
  list: the first application unwraps one level, the second another.
\<close>

theorem langchain_messages_format_twice_differs:
  "langchain_messages_format nested_memory
     = ([HumanMessage (PList [PDict [(''role'', PStr ''user''), (''content'', PStr ''x'')]])], None) \<and>
   langchain_messages_format (fst (langchain_messages_format nested_memory))
     = ([HumanMessage (PStr ''x'')], None) \<and>
   langchain_messages_format (fst (langchain_messages_format nested_memory))
     \<noteq> langchain_messages_format nested_memory"
  by (simp add: nested_memory_def format_entry_def wrapped_content_def and_then_def
      has_key_def new_message_def)

end
